theory Spec2Isabelle
  imports Main
begin

section \<open>The configuration object\<close>

text \<open>
  The file \<^verbatim>\<open>vite.config.ts\<close> exports one value: the result of passing an
  asynchronous arrow function to the bundler's \<^verbatim>\<open>defineConfig\<close>. The arrow
  function returns an object literal. Its shape is modelled by three records, one per
  nesting level of the literal, with the field names of the source.
\<close>

record watch_options =
  ignored :: "string list"

record server_options =
  port :: int
  strictPort :: bool
  watch :: watch_options

record 'p user_config =
  plugins :: "'p list"
  clearScreen :: bool
  server :: server_options

section \<open>Asynchronous functions\<close>

text \<open>
  A call of an \<^verbatim>\<open>async\<close> function runs the body up to its first
  \<^verbatim>\<open>await\<close> and hands a promise back. A body that returns without suspending
  leaves the promise fulfilled, a body that throws leaves it rejected with the thrown
  value, and a body that reaches an \<^verbatim>\<open>await\<close> leaves it pending.
\<close>

datatype ('e, 'a) promise = Pending | Fulfilled 'a | Rejected 'e

datatype ('e, 'a) async_body = Return 'a | Throw 'e | Await "('e, 'a) async_body"


fun async_call :: "('e, 'a) async_body \<Rightarrow> ('e, 'a) promise" where
  "async_call (Return v) = Fulfilled v"
| "async_call (Throw e) = Rejected e"
| "async_call (Await k) = Pending"


section \<open>The configuration factory\<close>

text \<open>
  The plugin constructor \<^verbatim>\<open>vue\<close> is imported from a package outside the
  repository, so it is a parameter of the model. It takes optional options (\<open>None\<close> is
  the call \<^verbatim>\<open>vue()\<close> with no argument), it may read and change the world \<open>'w\<close>
  (everything outside the returned value: files, process state, output), and it either
  throws (\<open>Inl\<close>) or returns a plugin descriptor (\<open>Inr\<close>).

  The body of the arrow function evaluates the object literal: the only call in it is
  \<^verbatim>\<open>vue()\<close>, inside the array of \<^verbatim>\<open>plugins\<close>; every other field is a
  constant. An exception of \<^verbatim>\<open>vue()\<close> leaves the body at once, since the body
  has no \<^verbatim>\<open>try\<close>.
\<close>

definition factory_body ::
  "('o option \<Rightarrow> 'w \<Rightarrow> ('e + 'p) \<times> 'w) \<Rightarrow> 'w \<Rightarrow> ('e, 'p user_config) async_body \<times> 'w" where
  "factory_body vue w =
     (case vue None w of
        (Inl e, w') \<Rightarrow> (Throw e, w')
      | (Inr p, w') \<Rightarrow>
          (Return \<lparr>plugins = [p],
                   clearScreen = False,
                   server = \<lparr>port = 1420,
                             strictPort = True,
                             watch = \<lparr>ignored = [''**/src-tauri/**'']\<rparr>\<rparr>\<rparr>, w'))"

text \<open>
  The arrow function declares no parameter. JavaScript lets the caller pass any number
  of arguments all the same (the bundler passes its environment-mode descriptor); they
  are the list \<open>args\<close>, and \<open>[]\<close> is the call with no argument.
\<close>

definition produceConfiguration ::
  "('o option \<Rightarrow> 'w \<Rightarrow> ('e + 'p) \<times> 'w) \<Rightarrow> 'arg list \<Rightarrow> 'w \<Rightarrow> ('e, 'p user_config) promise \<times> 'w" where
  "produceConfiguration vue args w =
     (case factory_body vue w of (b, w') \<Rightarrow> (async_call b, w'))"

text \<open>
  The exported value is \<^verbatim>\<open>defineConfig\<close> applied to the factory.
  \<^verbatim>\<open>defineConfig\<close> belongs to the bundler and is a parameter as well.
\<close>

definition default_export ::
  "(('arg list \<Rightarrow> 'w \<Rightarrow> ('e, 'p user_config) promise \<times> 'w) \<Rightarrow> 'x) \<Rightarrow>
   ('o option \<Rightarrow> 'w \<Rightarrow> ('e + 'p) \<times> 'w) \<Rightarrow> 'x" where
  "default_export defineConfig vue = defineConfig (produceConfiguration vue)"

subsection \<open>Stand-ins for the plugin constructor\<close>

text \<open>
  Three concrete constructors to run the factory on. The world is a counter of the calls
  made to the constructor. The first returns a descriptor and counts the call, the second
  counts the call and throws, the third returns a descriptor and leaves the world alone.
\<close>

definition vue_counting :: "unit option \<Rightarrow> nat \<Rightarrow> (string + string) \<times> nat" where
  "vue_counting opts n = (Inr ''vite:vue'', Suc n)"

definition vue_throwing :: "unit option \<Rightarrow> nat \<Rightarrow> (string + string) \<times> nat" where
  "vue_throwing opts n = (Inl ''cannot load compiler'', Suc n)"

definition vue_quiet :: "unit option \<Rightarrow> nat \<Rightarrow> (string + string) \<times> nat" where
  "vue_quiet opts n = (Inr ''vite:vue'', n)"

text \<open>
  Three more, whose descriptors are not a fixed string. The descriptor of \<open>vue_fresh\<close>
  is the number of the call that built it, so each call returns a new one. The
  descriptor of \<open>vue_deferred\<close> is a promise that is still pending (the bundler accepts a
  promise in \<^verbatim>\<open>plugins\<close>), that of \<open>vue_fulfilled\<close> a promise already
  fulfilled. The last two have an optional result, where \<open>None\<close> stands for a call that
  does not return; both return.
\<close>

definition vue_fresh :: "unit option \<Rightarrow> nat \<Rightarrow> (string + nat) \<times> nat" where
  "vue_fresh opts n = (Inr n, Suc n)"



subsection \<open>A constructor that may not return\<close>

text \<open>
  \<open>produceConfiguration\<close> takes a constructor that always returns or throws. A call of
  \<^verbatim>\<open>vue()\<close> that never comes back is the outcome \<open>None\<close> of a constructor
  with an optional result. The factory has nothing before its call of
  \<^verbatim>\<open>vue()\<close>, so it does not come back either; otherwise it goes on with the
  outcome of that call, as \<open>produceConfiguration\<close> does.
\<close>

definition invoke_factory ::
  "('o option \<Rightarrow> 'w \<Rightarrow> (('e + 'p) \<times> 'w) option) \<Rightarrow> 'arg list \<Rightarrow> 'w \<Rightarrow>
   (('e, 'p user_config) promise \<times> 'w) option" where
  "invoke_factory vue args w =
     (case vue None w of
        None \<Rightarrow> None
      | Some outcome \<Rightarrow> Some (produceConfiguration (\<lambda>(opts :: 'o option) w0. outcome) args w))"

subsection \<open>Deferred values inside the configuration\<close>



section \<open>What one call of the factory does\<close>

lemma produceConfiguration_returns:
  assumes "vue None w = (Inr p, w')"
  shows "produceConfiguration vue args w =
           (Fulfilled \<lparr>plugins = [p], clearScreen = False,
                       server = \<lparr>port = 1420, strictPort = True,
                                 watch = \<lparr>ignored = [''**/src-tauri/**'']\<rparr>\<rparr>\<rparr>, w')"
  using assms by (simp add: produceConfiguration_def factory_body_def)

lemma produceConfiguration_throws:
  assumes "vue None w = (Inl e, w')"
  shows "produceConfiguration vue args w = (Rejected e, w')"
  using assms by (simp add: produceConfiguration_def factory_body_def)

lemma produceConfiguration_world:
  "snd (produceConfiguration vue args w) = snd (vue None w)"
  by (simp add: produceConfiguration_def factory_body_def split: prod.split sum.split)

lemma produceConfiguration_fst_returns:
  assumes "fst (vue None w) = Inr p"
  shows "fst (produceConfiguration vue args w) =
           Fulfilled \<lparr>plugins = [p], clearScreen = False,
                      server = \<lparr>port = 1420, strictPort = True,
                                watch = \<lparr>ignored = [''**/src-tauri/**'']\<rparr>\<rparr>\<rparr>"
proof -
  obtain w' where "vue None w = (Inr p, w')"
    using assms by (cases "vue None w") simp
  then show ?thesis
    by (simp add: produceConfiguration_returns)
qed

lemma produceConfiguration_fst_throws:
  assumes "fst (vue None w) = Inl e"
  shows "fst (produceConfiguration vue args w) = Rejected e"
proof -
  obtain w' where "vue None w = (Inl e, w')"
    using assms by (cases "vue None w") simp
  then show ?thesis
    by (simp add: produceConfiguration_throws)
qed

lemma default_export_passthrough:
  "default_export (\<lambda>config. config) vue = produceConfiguration vue"
  by (simp add: default_export_def)

lemma invoke_factory_total:
  "invoke_factory (\<lambda>opts w0. Some (vue opts w0)) args w = Some (produceConfiguration vue args w)"
  by (simp add: invoke_factory_def produceConfiguration_def factory_body_def)

lemma vue_counting_returns: "fst (vue_counting None n) = Inr ''vite:vue''"
  by (simp add: vue_counting_def)

lemma vue_quiet_frame: "snd (vue_quiet None n) = n"
  by (simp add: vue_quiet_def)

section \<open>The resolved configuration\<close>

text \<open>
  Claim C1. Invoked with no arguments, the factory resolves to the object
  \<open>{plugins: [UIFrameworkPlugin], clearScreen: false, server: {port: 1420, strictPort: true,
  watch: {ignored: ["**/src-tauri/**"]}}}\<close>, where \<open>UIFrameworkPlugin\<close> is the descriptor
  that the call \<open>vue()\<close> returned.
\<close>

theorem produceConfiguration_no_arguments:
  assumes "fst (vue None w) = Inr UIFrameworkPlugin"
  shows "fst (produceConfiguration vue [] w) =
           Fulfilled \<lparr>plugins = [UIFrameworkPlugin],
                      clearScreen = False,
                      server = \<lparr>port = 1420,
                                strictPort = True,
                                watch = \<lparr>ignored = [''**/src-tauri/**'']\<rparr>\<rparr>\<rparr>"
  using assms by (rule produceConfiguration_fst_returns)

theorem produceConfiguration_no_arguments_witness:
  "fst (vue_counting None 0) = Inr ''vite:vue'' \<and>
   fst (produceConfiguration vue_counting ([] :: unit list) 0) =
     Fulfilled \<lparr>plugins = [''vite:vue''],
                clearScreen = False,
                server = \<lparr>port = 1420,
                          strictPort = True,
                          watch = \<lparr>ignored = [''**/src-tauri/**'']\<rparr>\<rparr>\<rparr>"
proof -
  have h: "fst (vue_counting None 0) = Inr ''vite:vue''"
    by (rule vue_counting_returns)
  have "fst (produceConfiguration vue_counting ([] :: unit list) 0) =
          Fulfilled \<lparr>plugins = [''vite:vue''],
                     clearScreen = False,
                     server = \<lparr>port = 1420,
                               strictPort = True,
                               watch = \<lparr>ignored = [''**/src-tauri/**'']\<rparr>\<rparr>\<rparr>"
    by (rule produceConfiguration_no_arguments [where vue = vue_counting and w = 0, OF h])
  with h show ?thesis by simp
qed

text \<open>
  Claim C2. Whenever the factory resolves (that is, whenever \<open>vue()\<close> returns), whatever
  the arguments and the world, the resolved object has \<open>server.port = 1420\<close> and
  \<open>server.strictPort = true\<close>.
\<close>

theorem server_port_strictPort:
  assumes "fst (vue None w) = Inr p"
  shows "\<exists>cfg. fst (produceConfiguration vue args w) = Fulfilled cfg \<and>
               port (server cfg) = 1420 \<and> strictPort (server cfg) = True"
  using produceConfiguration_fst_returns [where vue = vue and w = w and args = args, OF assms] by simp

theorem server_port_strictPort_witness:
  "\<exists>cfg. fst (produceConfiguration vue_counting [''serve'', ''development''] 7) = Fulfilled cfg \<and>
         port (server cfg) = 1420 \<and> strictPort (server cfg) = True"
proof -
  have h: "fst (vue_counting None 7) = Inr ''vite:vue''"
    by (rule vue_counting_returns)
  show ?thesis
    by (rule server_port_strictPort [where vue = vue_counting and w = 7, OF h])
qed

text \<open>
  Claim C3. The \<open>plugins\<close> field of the resolved object is a sequence of length exactly 1,
  and its single element is the descriptor that \<open>vue()\<close>, called with no options
  (\<open>vue None\<close>), returned.
\<close>

theorem plugins_single_vue:
  assumes "fst (vue None w) = Inr p"
  shows "\<exists>cfg. fst (produceConfiguration vue args w) = Fulfilled cfg \<and>
               length (plugins cfg) = 1 \<and> plugins cfg = [p]"
  using produceConfiguration_fst_returns [where vue = vue and w = w and args = args, OF assms] by simp

theorem plugins_single_vue_witness:
  "\<exists>cfg. fst (produceConfiguration vue_quiet [True] 3) = Fulfilled cfg \<and>
         length (plugins cfg) = 1 \<and> plugins cfg = [''vite:vue'']"
proof -
  have h: "fst (vue_quiet None 3) = Inr ''vite:vue''"
    by (simp add: vue_quiet_def)
  show ?thesis
    by (rule plugins_single_vue [where vue = vue_quiet and w = 3, OF h])
qed

text \<open>
  Claim C4. \<open>server.watch.ignored\<close> of the resolved object holds exactly one pattern, the
  glob string \<open>**/src-tauri/**\<close>, and no other pattern.
\<close>

theorem watch_ignored_src_tauri:
  assumes "fst (vue None w) = Inr p"
  shows "\<exists>cfg. fst (produceConfiguration vue args w) = Fulfilled cfg \<and>
               ignored (watch (server cfg)) = [''**/src-tauri/**''] \<and>
               set (ignored (watch (server cfg))) = {''**/src-tauri/**''}"
  using produceConfiguration_fst_returns [where vue = vue and w = w and args = args, OF assms] by simp

theorem watch_ignored_src_tauri_witness:
  "\<exists>cfg. fst (produceConfiguration vue_counting [(1::int), 2, 3] 41) = Fulfilled cfg \<and>
         ignored (watch (server cfg)) = [''**/src-tauri/**''] \<and>
         set (ignored (watch (server cfg))) = {''**/src-tauri/**''}"
proof -
  have h: "fst (vue_counting None 41) = Inr ''vite:vue''"
    by (rule vue_counting_returns)
  show ?thesis
    by (rule watch_ignored_src_tauri [where vue = vue_counting and w = 41, OF h])
qed

text \<open>
  Claim C5. The \<open>clearScreen\<close> field of the resolved object is \<open>false\<close>.
\<close>

theorem clearScreen_false:
  assumes "fst (vue None w) = Inr p"
  shows "\<exists>cfg. fst (produceConfiguration vue args w) = Fulfilled cfg \<and> clearScreen cfg = False"
  using produceConfiguration_fst_returns [where vue = vue and w = w and args = args, OF assms] by simp

theorem clearScreen_false_witness:
  "\<exists>cfg. fst (produceConfiguration vue_quiet [''build''] 0) = Fulfilled cfg \<and>
         clearScreen cfg = False"
proof -
  have h: "fst (vue_quiet None 0) = Inr ''vite:vue''"
    by (simp add: vue_quiet_def)
  show ?thesis
    by (rule clearScreen_false [where vue = vue_quiet and w = 0, OF h])
qed

section \<open>Repeated calls and arguments\<close>

text \<open>
  Claim C6 (idempotence), as the code has it. Each call of the factory calls \<open>vue()\<close>
  anew and stores the descriptor of its own call. Two calls that both resolve, in any two
  worlds (so also the second in the world the first left), give objects that agree in
  \<open>clearScreen\<close> and \<open>server\<close> and hold one plugin each; the two objects are equal
  exactly when the two descriptors are.
\<close>

theorem repeated_invocations_agree:
  assumes "fst (vue None w0) = Inr p"
    and "fst (vue None w1) = Inr q"
  shows "\<exists>cfg1 cfg2.
           fst (produceConfiguration vue args1 w0) = Fulfilled cfg1 \<and>
           fst (produceConfiguration vue args2 w1) = Fulfilled cfg2 \<and>
           clearScreen cfg1 = clearScreen cfg2 \<and>
           server cfg1 = server cfg2 \<and>
           plugins cfg1 = [p] \<and> plugins cfg2 = [q] \<and>
           (cfg1 = cfg2 \<longleftrightarrow> p = q)"
  using produceConfiguration_fst_returns [where vue = vue and w = w0 and args = args1, OF assms(1)]
    produceConfiguration_fst_returns [where vue = vue and w = w1 and args = args2, OF assms(2)]
  by simp

theorem repeated_invocations_agree_witness:
  "snd (produceConfiguration vue_fresh ([] :: string list) 0) = 1 \<and>
   (\<exists>cfg1 cfg2.
      fst (produceConfiguration vue_fresh ([] :: string list) 0) = Fulfilled cfg1 \<and>
      fst (produceConfiguration vue_fresh [''again''] 1) = Fulfilled cfg2 \<and>
      clearScreen cfg1 = clearScreen cfg2 \<and>
      server cfg1 = server cfg2 \<and>
      plugins cfg1 = [0] \<and> plugins cfg2 = [1] \<and>
      (cfg1 = cfg2 \<longleftrightarrow> (0::nat) = 1))"
proof -
  have first: "fst (vue_fresh None 0) = Inr 0"
    by (simp add: vue_fresh_def)
  have second: "fst (vue_fresh None 1) = Inr 1"
    by (simp add: vue_fresh_def)
  have world: "snd (produceConfiguration vue_fresh ([] :: string list) 0) = 1"
    by (simp add: produceConfiguration_world vue_fresh_def)
  have "\<exists>cfg1 cfg2.
      fst (produceConfiguration vue_fresh ([] :: string list) 0) = Fulfilled cfg1 \<and>
      fst (produceConfiguration vue_fresh [''again''] 1) = Fulfilled cfg2 \<and>
      clearScreen cfg1 = clearScreen cfg2 \<and>
      server cfg1 = server cfg2 \<and>
      plugins cfg1 = [0] \<and> plugins cfg2 = [1] \<and>
      (cfg1 = cfg2 \<longleftrightarrow> (0::nat) = 1)"
    by (rule repeated_invocations_agree
          [where vue = vue_fresh and ?w0.0 = 0 and ?w1.0 = 1, OF first second])
  with world show ?thesis by (rule conjI)
qed

text \<open>
  The claim as it was stated, that any two calls in one process resolve to equal objects,
  fails where \<open>vue()\<close> returns a new descriptor at each call: the first call resolves
  with the descriptor 0 and leaves the world 1, the second resolves there with the
  descriptor 1, and the two objects differ.
\<close>

theorem repeated_invocations_equal_counterexample:
  "fst (produceConfiguration vue_fresh ([] :: unit list) 0) =
     Fulfilled \<lparr>plugins = [0], clearScreen = False,
                server = \<lparr>port = 1420, strictPort = True,
                          watch = \<lparr>ignored = [''**/src-tauri/**'']\<rparr>\<rparr>\<rparr> \<and>
   snd (produceConfiguration vue_fresh ([] :: unit list) 0) = 1 \<and>
   fst (produceConfiguration vue_fresh ([] :: unit list) 1) =
     Fulfilled \<lparr>plugins = [1], clearScreen = False,
                server = \<lparr>port = 1420, strictPort = True,
                          watch = \<lparr>ignored = [''**/src-tauri/**'']\<rparr>\<rparr>\<rparr> \<and>
   fst (produceConfiguration vue_fresh ([] :: unit list) 0) \<noteq>
   fst (produceConfiguration vue_fresh ([] :: unit list) 1)"
  by (simp add: produceConfiguration_def factory_body_def vue_fresh_def)

text \<open>
  Claim C7 (noninterference). The factory declares no parameter, so what the caller
  passes (the environment-mode descriptor of the bundler, or nothing) has no influence:
  two calls that differ only in their arguments give the same promise and the same world.
\<close>

theorem arguments_ignored:
  "produceConfiguration vue args1 w = produceConfiguration vue args2 w"
  by (simp add: produceConfiguration_def)

section \<open>Effects and failure\<close>

text \<open>
  Claim C8 (frame), as the code has it. The factory has no effect of its own: the world
  after a call of the factory is the world that its one call of \<open>vue()\<close> left. So a call
  of the factory leaves the world as it was exactly when that call of \<open>vue()\<close> does.
\<close>

theorem factory_world_is_vue_world:
  "snd (produceConfiguration vue args w) = snd (vue None w) \<and>
   (snd (produceConfiguration vue args w) = w \<longleftrightarrow> snd (vue None w) = w)"
  by (simp add: produceConfiguration_def factory_body_def split: prod.split sum.split)

theorem factory_world_is_vue_world_witness:
  "snd (vue_quiet None 5) = 5 \<and> snd (produceConfiguration vue_quiet [''serve''] 5) = 5"
proof -
  have h: "snd (vue_quiet None 5) = 5"
    by (rule vue_quiet_frame)
  have "snd (produceConfiguration vue_quiet [''serve''] 5) = snd (vue_quiet None 5)"
    using factory_world_is_vue_world [where vue = vue_quiet and w = 5 and args = "[''serve'']"]
    by (rule conjunct1)
  with h show ?thesis by simp
qed

text \<open>
  The claim as it was stated, that a call changes nothing outside its result, fails
  where \<open>vue()\<close> has an effect: with the constructor that counts its calls, the world is
  0 before the call of the factory and 1 after it.
\<close>

theorem no_side_effects_counterexample:
  "snd (produceConfiguration vue_counting ([] :: unit list) 0) = 1 \<and>
   snd (produceConfiguration vue_counting ([] :: unit list) 0) \<noteq> 0"
  by (simp add: produceConfiguration_def factory_body_def vue_counting_def)

text \<open>
  Claim C9 (error propagation). The factory handles no error: its promise is rejected if
  and only if the call \<open>vue()\<close> throws, and then it is rejected with the very value
  thrown (no fallback object), in the world that this single call of \<open>vue()\<close> left (no
  retry, no other change).
\<close>

theorem failure_propagates_unchanged:
  "((\<exists>e. fst (produceConfiguration vue args w) = Rejected e) \<longleftrightarrow> (\<exists>e. fst (vue None w) = Inl e)) \<and>
   (\<forall>e. fst (vue None w) = Inl e \<longrightarrow>
        produceConfiguration vue args w = (Rejected e, snd (vue None w)))"
proof (cases "vue None w")
  case (Pair r w')
  show ?thesis
  proof (cases r)
    case (Inl e)
    with Pair show ?thesis
      by (simp add: produceConfiguration_throws)
  next
    case (Inr p)
    with Pair show ?thesis
      by (simp add: produceConfiguration_returns)
  qed
qed

theorem failure_propagates_unchanged_witness:
  "fst (vue_throwing None 0) = Inl ''cannot load compiler'' \<and>
   produceConfiguration vue_throwing ([] :: unit list) 0 = (Rejected ''cannot load compiler'', 1)"
proof -
  have h: "fst (vue_throwing None 0) = Inl ''cannot load compiler''"
    by (simp add: vue_throwing_def)
  have "produceConfiguration vue_throwing ([] :: unit list) 0 =
          (Rejected ''cannot load compiler'', snd (vue_throwing None 0))"
    using failure_propagates_unchanged [where vue = vue_throwing and w = 0 and args = "[] :: unit list"] h
    by blast
  with h show ?thesis
    by (simp add: vue_throwing_def)
qed




end
